theory Spec2Isabelle
  imports Main
begin

section \<open>Errors\<close>

text \<open>
  The exceptions the modelled functions of \<^verbatim>\<open>models.py\<close> and \<^verbatim>\<open>wotinspector.py\<close> can
  raise. \<open>InvalidId\<close> is the exception of the \<^verbatim>\<open>bson\<close> library's \<^verbatim>\<open>ObjectId\<close>
  constructor, \<open>Exception\<close> is the bare \<^verbatim>\<open>Exception('Error reading replay')\<close> of
  \<^verbatim>\<open>get_battle_result\<close>.
\<close>

datatype error = ValueError | IndexError | InvalidId | Exception

section \<open>Region\<close>

datatype Region = ru | eu | com | asia | china | API

definition API_regions :: "Region list" where
  "API_regions = [eu, com, asia, ru]"

text \<open>
  \<^verbatim>\<open>Region.from_id\<close>. The thresholds \<^verbatim>\<open>31e8\<close>, \<^verbatim>\<open>20e8\<close>, \<^verbatim>\<open>10e8\<close> and \<^verbatim>\<open>5e8\<close> are floats
  that hold the integers 3100000000, 2000000000, 1000000000 and 500000000 exactly, and
  Python compares an \<^verbatim>\<open>int\<close> with a \<^verbatim>\<open>float\<close> by value, so on an \<^verbatim>\<open>int\<close> argument no
  comparison raises: the \<^verbatim>\<open>except\<close> branch (\<open>Inl ValueError\<close>) and the trailing
  \<^verbatim>\<open>return None\<close> (\<open>Inr None\<close>) are in the result type and are never taken.
\<close>

definition from_id :: "int \<Rightarrow> error + Region option" where
  "from_id account_id =
     (if account_id \<ge> 3100000000 then Inr (Some china)
      else if account_id \<ge> 2000000000 then Inr (Some asia)
      else if account_id \<ge> 1000000000 then Inr (Some com)
      else if account_id \<ge> 500000000 then Inr (Some eu)
      else Inr (Some ru))"

text \<open>\<^verbatim>\<open>Region.matches\<close>; both arguments are regions, so the \<^verbatim>\<open>assert\<close> holds.\<close>

definition matches :: "Region \<Rightarrow> Region \<Rightarrow> bool" where
  "matches self other_region =
     (if self = other_region then True
      else if self = API then other_region \<in> set API_regions
      else if other_region = API then self \<in> set API_regions
      else False)"

section \<open>Battle records\<close>

datatype EnumWinnerTeam = draw | one | two

datatype EnumBattleResult = incomplete | not_win | win | loss | draw

text \<open>
  The classes \<^verbatim>\<open>WoTBlitzReplayDetail\<close>, \<^verbatim>\<open>WoTBlitzReplaySummary\<close>, \<^verbatim>\<open>WoTBlitzReplayData\<close>
  and \<^verbatim>\<open>WoTBlitzReplayJSON\<close>, with the fields the perspective queries and the identity
  validator read. The statistics fields of a detail row and the map, vehicle and time
  fields of a summary are read by none of the functions below. A field declared
  \<^verbatim>\<open>T | None\<close> is an option. The three \<^verbatim>\<open>id\<close> fields carry the class as a suffix.
\<close>

record WoTBlitzReplayDetail =
  dbid :: int
  squad_index :: "int option"

record WoTBlitzReplaySummary =
  winner_team :: "EnumWinnerTeam option"
  battle_result :: "EnumBattleResult option"
  protagonist :: int
  allies :: "int list"
  enemies :: "int list"
  details :: "WoTBlitzReplayDetail list"

record WoTBlitzReplayData =
  view_url :: "string option"
  download_url :: "string option"
  id_data :: "string option"
  summary :: WoTBlitzReplaySummary

record WoTBlitzReplayJSON =
  id_json :: "string option"
  status :: string
  data :: WoTBlitzReplayData

subsection \<open>Rosters\<close>

definition get_enemies :: "WoTBlitzReplayJSON \<Rightarrow> int option \<Rightarrow> error + int list" where
  "get_enemies self player =
     (case player of
        None \<Rightarrow> Inr (enemies (summary (data self)))
      | Some p \<Rightarrow>
          if p \<in> set (allies (summary (data self))) then Inr (enemies (summary (data self)))
          else if p \<in> set (enemies (summary (data self))) then Inr (allies (summary (data self)))
          else Inl ValueError)"

definition get_allies :: "WoTBlitzReplayJSON \<Rightarrow> int option \<Rightarrow> error + int list" where
  "get_allies self player =
     (case player of
        None \<Rightarrow> Inr (allies (summary (data self)))
      | Some p \<Rightarrow>
          if p \<in> set (allies (summary (data self))) then Inr (allies (summary (data self)))
          else if p \<in> set (enemies (summary (data self))) then Inr (enemies (summary (data self)))
          else Inl ValueError)"

subsection \<open>Platoons\<close>

text \<open>
  A \<^verbatim>\<open>defaultdict(list)\<close> keyed by platoon index: a key that was never appended to is
  absent (\<open>None\<close>); \<^verbatim>\<open>m[k].append(a)\<close> creates the key with the empty list first.
\<close>

type_synonym platoons = "int \<rightharpoonup> int list"

definition append_to :: "platoons \<Rightarrow> int \<Rightarrow> int \<Rightarrow> platoons" where
  "append_to m k a = m(k \<mapsto> (case m k of None \<Rightarrow> [] | Some xs \<Rightarrow> xs) @ [a])"

text \<open>The \<^verbatim>\<open>for d in self.data.summary.details\<close> loop of \<^verbatim>\<open>get_platoons\<close>.\<close>

fun platoons_loop ::
  "int list \<Rightarrow> WoTBlitzReplayDetail list \<Rightarrow> platoons \<Rightarrow> platoons \<Rightarrow> platoons \<times> platoons"
where
  "platoons_loop allies_p [] allied_platoons enemy_platoons = (allied_platoons, enemy_platoons)"
| "platoons_loop allies_p (d # ds) allied_platoons enemy_platoons =
     (case squad_index d of
        None \<Rightarrow> platoons_loop allies_p ds allied_platoons enemy_platoons
      | Some sq \<Rightarrow>
          if sq > 0 then
            (if dbid d \<in> set allies_p
             then platoons_loop allies_p ds (append_to allied_platoons sq (dbid d)) enemy_platoons
             else platoons_loop allies_p ds allied_platoons (append_to enemy_platoons sq (dbid d)))
          else platoons_loop allies_p ds allied_platoons enemy_platoons)"

definition get_platoons :: "WoTBlitzReplayJSON \<Rightarrow> int option \<Rightarrow> error + platoons \<times> platoons" where
  "get_platoons self player =
     (case get_allies self player of
        Inl e \<Rightarrow> Inl e
      | Inr allies_p \<Rightarrow>
          Inr (platoons_loop allies_p (details (summary (data self))) Map.empty Map.empty))"

text \<open>
  What the loop computes, stated on the rows: the participant ids, in row order, of the
  rows with platoon index \<open>k\<close> whose id satisfies \<open>P\<close>; and the grouping that holds, for each
  positive index with at least one such row, that list.
\<close>

definition platoon_rows :: "WoTBlitzReplayDetail list \<Rightarrow> (int \<Rightarrow> bool) \<Rightarrow> int \<Rightarrow> int list" where
  "platoon_rows ds P k = map dbid (filter (\<lambda>d. squad_index d = Some k \<and> P (dbid d)) ds)"

definition grouping :: "WoTBlitzReplayDetail list \<Rightarrow> (int \<Rightarrow> bool) \<Rightarrow> platoons" where
  "grouping ds P k = (if k > 0 \<and> platoon_rows ds P k \<noteq> [] then Some (platoon_rows ds P k) else None)"

subsection \<open>Battle result\<close>

text \<open>
  \<^verbatim>\<open>get_battle_result\<close>. \<^verbatim>\<open>get_enemies()\<close> and \<^verbatim>\<open>get_allies()\<close> are called without a
  player, and only when \<^verbatim>\<open>player\<close> is not \<^verbatim>\<open>None\<close> (\<^verbatim>\<open>and\<close> and \<^verbatim>\<open>or\<close> short-circuit). The
  whole body is inside \<^verbatim>\<open>try\<close>: any exception becomes \<open>Exception\<close>.
\<close>

definition get_battle_result :: "WoTBlitzReplayJSON \<Rightarrow> int option \<Rightarrow> error + EnumBattleResult" where
  "get_battle_result self player =
     (case
        (if battle_result (summary (data self)) = Some EnumBattleResult.incomplete
         then Inr EnumBattleResult.incomplete
         else
           case (case player of
                   None \<Rightarrow> Inr False
                 | Some p \<Rightarrow> (case get_enemies self None of
                               Inl e \<Rightarrow> Inl e | Inr es \<Rightarrow> Inr (p \<in> set es))) of
             Inl e \<Rightarrow> Inl e
           | Inr True \<Rightarrow>
               if battle_result (summary (data self)) = Some EnumBattleResult.win
               then Inr EnumBattleResult.loss
               else if winner_team (summary (data self)) = Some EnumWinnerTeam.draw
               then Inr EnumBattleResult.draw
               else Inr EnumBattleResult.win
           | Inr False \<Rightarrow>
               (case (case player of
                        None \<Rightarrow> Inr True
                      | Some p \<Rightarrow> (case get_allies self None of
                                    Inl e \<Rightarrow> Inl e | Inr as \<Rightarrow> Inr (p \<in> set as))) of
                  Inl e \<Rightarrow> Inl e
                | Inr True \<Rightarrow>
                    if battle_result (summary (data self)) = Some EnumBattleResult.win
                    then Inr EnumBattleResult.win
                    else if winner_team (summary (data self)) = Some EnumWinnerTeam.draw
                    then Inr EnumBattleResult.draw
                    else Inr EnumBattleResult.loss
                | Inr False \<Rightarrow> Inr EnumBattleResult.incomplete))
      of Inl e \<Rightarrow> Inl Exception | Inr res \<Rightarrow> Inr res)"

text \<open>A battle used in the examples: allies 1 and 2, enemies 3 and 4, and a detail row for
  participant 9, who is in neither roster, with platoon index 1.\<close>

definition example_replay :: WoTBlitzReplayJSON where
  "example_replay =
     \<lparr>id_json = None, status = ''ok'',
      data = \<lparr>view_url = None, download_url = None, id_data = None,
        summary = \<lparr>winner_team = Some EnumWinnerTeam.one,
          battle_result = Some EnumBattleResult.win, protagonist = 1,
          allies = [1, 2], enemies = [3, 4],
          details = [\<lparr>dbid = 1, squad_index = Some 1\<rparr>, \<lparr>dbid = 2, squad_index = Some 1\<rparr>,
                     \<lparr>dbid = 3, squad_index = Some 2\<rparr>, \<lparr>dbid = 4, squad_index = Some 0\<rparr>,
                     \<lparr>dbid = 9, squad_index = Some 1\<rparr>]\<rparr>\<rparr>\<rparr>"

text \<open>The same battle with another recorded result and winner.\<close>

definition example_battle :: "EnumBattleResult option \<Rightarrow> EnumWinnerTeam option \<Rightarrow> WoTBlitzReplayJSON" where
  "example_battle br wt =
     example_replay\<lparr>data := (data example_replay)\<lparr>summary :=
       (summary (data example_replay))\<lparr>battle_result := br, winner_team := wt\<rparr>\<rparr>\<rparr>"

section \<open>Tank statistics identity\<close>

subsection \<open>Python's \<^verbatim>\<open>hex\<close> and \<^verbatim>\<open>str.zfill\<close>\<close>

text \<open>
  \<^verbatim>\<open>hex(n)\<close> is \<^verbatim>\<open>'0x'\<close> (after \<^verbatim>\<open>'-'\<close> for a negative \<^verbatim>\<open>n\<close>) and the digits of \<^verbatim>\<open>|n|\<close> in
  base 16, lower case, most significant first, a single \<^verbatim>\<open>'0'\<close> for zero.
\<close>

definition hexchar :: "nat \<Rightarrow> char" where
  "hexchar d = ''0123456789abcdef'' ! d"

function hex_digits :: "nat \<Rightarrow> string" where
  "hex_digits n = (if n < 16 then [hexchar n] else hex_digits (n div 16) @ [hexchar (n mod 16)])"
  by pat_completeness auto
termination
  by (relation "measure (\<lambda>n. n)") auto

declare hex_digits.simps [simp del]

definition hex :: "int \<Rightarrow> string" where
  "hex n = (if n < 0 then ''-0x'' @ hex_digits (nat (- n)) else ''0x'' @ hex_digits (nat n))"

text \<open>
  \<^verbatim>\<open>s.zfill(width)\<close>: a string at least \<^verbatim>\<open>width\<close> long is returned as it is (never cut);
  a shorter one gets zeros on the left, after a leading sign if there is one.
\<close>

definition zfill :: "nat \<Rightarrow> string \<Rightarrow> string" where
  "zfill width s =
     (if width \<le> length s then s
      else case s of
             [] \<Rightarrow> replicate width CHR ''0''
           | c # cs \<Rightarrow>
               if c = CHR ''+'' \<or> c = CHR ''-''
               then c # replicate (width - length s) CHR ''0'' @ cs
               else replicate (width - length s) CHR ''0'' @ s)"

subsection \<open>\<^verbatim>\<open>ObjectId\<close>\<close>

text \<open>
  \<^verbatim>\<open>bson.objectid.ObjectId\<close> is a class of the \<^verbatim>\<open>bson\<close> library, not of this repository. Its
  constructor, given a \<^verbatim>\<open>str\<close>, raises \<^verbatim>\<open>InvalidId\<close> unless the string has length 24 and
  \<^verbatim>\<open>bytes.fromhex\<close> reads it; it keeps the 12 bytes, and \<^verbatim>\<open>str\<close> of the object is their 24
  hex digits in lower case. An object id is represented here by that 24-digit text.
  \<open>hexval\<close> is the value of a hex digit in either case. (\<^verbatim>\<open>bytes.fromhex\<close> also skips ASCII
  whitespace; \<open>mk_id\<close> builds strings over the characters \<^verbatim>\<open>0-9\<close>, \<^verbatim>\<open>a-f\<close> and, for a
  negative argument, \<^verbatim>\<open>x\<close>, so that case is not modelled.)
\<close>

definition hexval :: "char \<Rightarrow> nat option" where
  "hexval c = map_of (zip ''0123456789abcdef'' [0 ..< 16] @ zip ''ABCDEF'' [10 ..< 16]) c"

definition is_hexdigit :: "char \<Rightarrow> bool" where
  "is_hexdigit c \<longleftrightarrow> hexval c \<noteq> None"

datatype objectid = Oid string

definition ObjectId :: "string \<Rightarrow> error + objectid" where
  "ObjectId oid =
     (if length oid = 24 \<and> list_all is_hexdigit oid
      then Inr (Oid (map (\<lambda>c. hexchar (the (hexval c))) oid))
      else Inl InvalidId)"

subsection \<open>\<^verbatim>\<open>WGtankStat\<close>\<close>

text \<open>
  \<^verbatim>\<open>WGtankStat.mk_id(account_id, last_battle_time, tank_id=0)\<close>: the parameters are in
  the order of the source; the id is built in the order account, tank, time.
\<close>

definition mk_id :: "int \<Rightarrow> int \<Rightarrow> int \<Rightarrow> error + objectid" where
  "mk_id account_id last_battle_time tank_id =
     ObjectId (zfill 10 (drop 2 (hex account_id)) @ zfill 6 (drop 2 (hex tank_id))
               @ zfill 8 (drop 2 (hex last_battle_time)))"

text \<open>
  The values dictionary that the validator \<^verbatim>\<open>set_id\<close> receives once the fields have been
  validated (a missing or ill-typed field fails the construction whatever the id is). The
  statistics block \<^verbatim>\<open>all\<close> and the optional counters are not read by \<^verbatim>\<open>set_id\<close>.
\<close>

record WGtankStat =
  id_tankstat :: "objectid option"
  region :: "Region option"
  last_battle_time :: int
  account_id :: int
  tank_id :: int
  mark_of_mastery :: int
  battle_life_time :: int

definition set_id :: "WGtankStat \<Rightarrow> error + WGtankStat" where
  "set_id values =
     (case (if id_tankstat values = None
            then (case mk_id (account_id values) (last_battle_time values) (tank_id values) of
                    Inl e \<Rightarrow> Inl e
                  | Inr oid \<Rightarrow> Inr (values\<lparr>id_tankstat := Some oid\<rparr>))
            else Inr values) of
        Inl e \<Rightarrow> Inl ValueError
      | Inr values1 \<Rightarrow>
          if region values1 = None
          then (case from_id (account_id values1) of
                  Inl e \<Rightarrow> Inl ValueError
                | Inr r \<Rightarrow> Inr (values1\<lparr>region := r\<rparr>))
          else Inr values1)"

subsection \<open>The encoding as the specification words it\<close>

text \<open>
  \<open>pad_hex w n\<close> is \<open>n\<close> in hex, zero-padded on the left to \<open>w\<close> digits. \<open>split_id\<close> is the
  decoder of the specification (the source has none): it cuts the 24 digits into segments
  of 10, 6 and 8 digits and reads each as a hex number, giving
  (account_id, tank_id, last_battle_time).
\<close>

definition pad_hex :: "nat \<Rightarrow> int \<Rightarrow> string" where
  "pad_hex w n = replicate (w - length (hex_digits (nat n))) CHR ''0'' @ hex_digits (nat n)"

fun parse_hex_acc :: "nat \<Rightarrow> string \<Rightarrow> nat option" where
  "parse_hex_acc acc [] = Some acc"
| "parse_hex_acc acc (c # cs) =
     (case hexval c of None \<Rightarrow> None | Some d \<Rightarrow> parse_hex_acc (16 * acc + d) cs)"

definition parse_hex :: "string \<Rightarrow> int option" where
  "parse_hex s = (if s = [] then None else map_option int (parse_hex_acc 0 s))"

definition split_id :: "objectid \<Rightarrow> (int \<times> int \<times> int) option" where
  "split_id oid =
     (case oid of Oid s \<Rightarrow>
        (case (parse_hex (take 10 s), parse_hex (take 6 (drop 10 s)), parse_hex (drop 16 s)) of
           (Some a, Some t, Some l) \<Rightarrow> Some (a, t, l)
         | _ \<Rightarrow> None))"

text \<open>A payload that supplies an identifier of its own, for account 1, tank 2, time 3.\<close>

definition example_stat :: WGtankStat where
  "example_stat =
     \<lparr>id_tankstat = Some (Oid ''ffffffffffffffffffffffff''), region = None,
      last_battle_time = 3, account_id = 1, tank_id = 2,
      mark_of_mastery = 0, battle_life_time = 0\<rparr>"

section \<open>Replay identity\<close>

text \<open>
  \<^verbatim>\<open>s.split('/')\<close>, \<^verbatim>\<open>xs[-1:]\<close> and \<^verbatim>\<open>ys[0]\<close>. \<open>split_acc\<close> carries the piece read so far;
  \<^verbatim>\<open>split\<close> always returns at least one piece. Indexing an empty list raises
  \<^verbatim>\<open>IndexError\<close>.
\<close>

fun split_acc :: "char \<Rightarrow> string \<Rightarrow> string \<Rightarrow> string list" where
  "split_acc sep cur [] = [cur]"
| "split_acc sep cur (c # cs) =
     (if c = sep then cur # split_acc sep [] cs else split_acc sep (cur @ [c]) cs)"

definition split_str :: "string \<Rightarrow> char \<Rightarrow> string list" where
  "split_str s sep = split_acc sep [] s"

definition last_slice :: "'a list \<Rightarrow> 'a list" where
  "last_slice xs = drop (length xs - 1) xs"

definition index0 :: "'a list \<Rightarrow> error + 'a" where
  "index0 xs = (case xs of [] \<Rightarrow> Inl IndexError | x # _ \<Rightarrow> Inr x)"

definition ViewUrlBase :: string where
  "ViewUrlBase = ''https://replays.wotinspector.com/en/view/''"

definition DLurlBase :: string where
  "DLurlBase = ''https://replays.wotinspector.com/en/download/''"

text \<open>
  \<^verbatim>\<open>WoTBlitzReplayData.store_id\<close>, on the validated values (the three keys are present; a
  URL is the string of the \<^verbatim>\<open>HttpUrl\<close>). The inner \<open>case\<close> is the \<^verbatim>\<open>if/elif/else\<close> that picks
  the id, \<open>Inr None\<close> its early \<^verbatim>\<open>return values\<close>; any exception becomes \<open>ValueError\<close>.
\<close>

definition store_id :: "WoTBlitzReplayData \<Rightarrow> error + WoTBlitzReplayData" where
  "store_id values =
     (case (case id_data values of
              Some i \<Rightarrow> Inr (Some i)
            | None \<Rightarrow>
                (case view_url values of
                   Some u \<Rightarrow>
                     (case index0 (last_slice (split_str u CHR ''/'')) of
                        Inl e \<Rightarrow> Inl e | Inr i \<Rightarrow> Inr (Some i))
                 | None \<Rightarrow>
                     (case download_url values of
                        Some u \<Rightarrow>
                          (case index0 (last_slice (split_str u CHR ''/'')) of
                             Inl e \<Rightarrow> Inl e | Inr i \<Rightarrow> Inr (Some i))
                      | None \<Rightarrow> Inr None))) of
        Inl e \<Rightarrow> Inl ValueError
      | Inr None \<Rightarrow> Inr values
      | Inr (Some i) \<Rightarrow>
          Inr (values\<lparr>id_data := Some i, view_url := Some (ViewUrlBase @ i),
                      download_url := Some (DLurlBase @ i)\<rparr>))"

text \<open>The trailing path segment of a URL: what follows its last \<^verbatim>\<open>/\<close> (all of it when it
  has none).\<close>

definition trailing_segment :: "string \<Rightarrow> string" where
  "trailing_segment url = rev (takeWhile (\<lambda>c. c \<noteq> CHR ''/'') (rev url))"

section \<open>Replay synchronisation client\<close>

text \<open>
  \<^verbatim>\<open>WoTinspector\<close> of \<^verbatim>\<open>wotinspector.py\<close>. Each method is one sequential flow of awaits, so it
  is modelled by passing the client's state: its counter \<^verbatim>\<open>REPLAY_N\<close> and the trace of what
  it did through \<^verbatim>\<open>self.session\<close>, in order: \<open>Fetch url\<close> for the call of
  \<^verbatim>\<open>get_url_JSON_model\<close> in \<^verbatim>\<open>get_replay\<close>, \<open>Upload url headers payload\<close> for a
  \<^verbatim>\<open>self.session.post\<close>, \<open>Sleep\<close> for \<^verbatim>\<open>await sleep(SLEEP)\<close>.
\<close>

type_synonym bytes = string

datatype pval = PStr string | PInt int

datatype event =
    Fetch string
  | Upload string "(string \<times> string) list" "(string \<times> string \<times> bytes) list"
  | Sleep

record WoTinspector =
  REPLAY_N :: int
  events :: "event list"

text \<open>
  What the client calls and this repository does not define: \<^verbatim>\<open>hashlib.md5\<close>,
  \<^verbatim>\<open>base64.b64encode\<close>, \<^verbatim>\<open>urllib.parse.urlencode\<close>, \<^verbatim>\<open>pyutils\<close>' \<^verbatim>\<open>get_url_JSON_model\<close>,
  the session's \<^verbatim>\<open>post\<close> and pydantic's \<^verbatim>\<open>parse_raw\<close>. The remote service answers as a
  function of the trace so far and of the request: \<open>get_url_JSON_model\<close> gives a record,
  \<^verbatim>\<open>None\<close> or an exception; \<open>session_post\<close> gives an exception, or a status with the body
  text (or the exception of reading it).
\<close>

record remote =
  md5_hexdigest :: "bytes \<Rightarrow> string"
  b64encode :: "bytes \<Rightarrow> bytes"
  urlencode :: "(string \<times> pval) list \<Rightarrow> string"
  get_url_JSON_model :: "event list \<Rightarrow> string \<Rightarrow> error + WoTBlitzReplayJSON option"
  session_post ::
    "event list \<Rightarrow> string \<Rightarrow> (string \<times> string) list \<Rightarrow> (string \<times> string \<times> bytes) list
       \<Rightarrow> error + nat \<times> (error + string)"
  parse_raw :: "string \<Rightarrow> error + WoTBlitzReplayJSON"

definition URL_REPLAY_UL :: string where
  "URL_REPLAY_UL = ''https://api.wotinspector.com/replay/upload?''"

definition URL_REPLAY_INFO :: string where
  "URL_REPLAY_INFO = ''https://api.wotinspector.com/replay/upload?details=full&key=''"

definition MAX_RETRIES :: nat where
  "MAX_RETRIES = 3"

definition get_url_replay_JSON :: "string \<Rightarrow> string" where
  "get_url_replay_JSON replay_id = URL_REPLAY_INFO @ replay_id"

text \<open>\<^verbatim>\<open>WoTBlitzReplayJSON.from_str\<close>: every exception of the parser gives \<^verbatim>\<open>None\<close>.\<close>

definition from_str :: "remote \<Rightarrow> string \<Rightarrow> WoTBlitzReplayJSON option" where
  "from_str env content = (case parse_raw env content of Inl e \<Rightarrow> None | Inr r \<Rightarrow> Some r)"

definition get_replay ::
  "remote \<Rightarrow> WoTinspector \<Rightarrow> string \<Rightarrow> WoTBlitzReplayJSON option \<times> WoTinspector"
where
  "get_replay env self replay_id =
     (let url = get_url_replay_JSON replay_id;
          self1 = self\<lparr>events := events self @ [Fetch url]\<rparr>
      in case get_url_JSON_model env (events self) url of
           Inl err \<Rightarrow> (None, self1)
         | Inr None \<Rightarrow> (None, self1)
         | Inr (Some replay) \<Rightarrow> (Some replay, self1))"

text \<open>
  The \<^verbatim>\<open>for retry in range(self.MAX_RETRIES)\<close> loop of \<^verbatim>\<open>post_replay\<close>, by the number of
  tries left; \<open>replay\<close> is the local variable returned after the loop.
\<close>

fun post_retries ::
  "remote \<Rightarrow> string \<Rightarrow> (string \<times> string) list \<Rightarrow> (string \<times> string \<times> bytes) list \<Rightarrow> nat
     \<Rightarrow> WoTinspector \<Rightarrow> WoTBlitzReplayJSON option \<Rightarrow> WoTBlitzReplayJSON option \<times> WoTinspector"
where
  "post_retries env url headers payload 0 self replay = (replay, self)"
| "post_retries env url headers payload (Suc n) self replay =
     (let posted = self\<lparr>events := events self @ [Upload url headers payload]\<rparr>;
          slept = posted\<lparr>events := events posted @ [Sleep]\<rparr>
      in case session_post env (events self) url headers payload of
           Inl err \<Rightarrow> post_retries env url headers payload n slept replay
         | Inr (resp_status, resp_text) \<Rightarrow>
             if resp_status = 200 then
               (case resp_text of
                  Inl err \<Rightarrow> post_retries env url headers payload n slept replay
                | Inr body \<Rightarrow>
                    (case from_str env body of
                       Some r \<Rightarrow> (Some r, posted)
                     | None \<Rightarrow> post_retries env url headers payload n slept None))
             else post_retries env url headers payload n slept replay)"

text \<open>
  \<^verbatim>\<open>post_replay(data, filename, account_id, title, priv, N)\<close>; \<open>data'\<close> is a byte string, on
  which nothing in the first \<^verbatim>\<open>try\<close> block raises.
\<close>

definition post_replay ::
  "remote \<Rightarrow> WoTinspector \<Rightarrow> bytes \<Rightarrow> string \<Rightarrow> int \<Rightarrow> string \<Rightarrow> bool \<Rightarrow> int option
     \<Rightarrow> WoTBlitzReplayJSON option \<times> WoTinspector"
where
  "post_replay env self data' filename account_id' title priv N =
     (let N1 = (case N of Some n \<Rightarrow> n | None \<Rightarrow> REPLAY_N self);
          self1 = self\<lparr>REPLAY_N := REPLAY_N self + 1\<rparr>;
          replay_id = md5_hexdigest env data';
          (json_resp, self2) = get_replay env self1 replay_id
      in case json_resp of
           Some existing \<Rightarrow> (Some existing, self2)
         | None \<Rightarrow>
             (let params = [(''title'', PStr title), (''private'', PInt (if priv then 1 else 0)),
                            (''uploaded_by'', PInt account_id'), (''details'', PStr ''full''),
                            (''key'', PStr replay_id)];
                  url = URL_REPLAY_UL @ urlencode env params;
                  headers = [(''Content-type'', ''application/x-www-form-urlencoded'')];
                  payload = [(''file'', filename, b64encode env data')]
              in post_retries env url headers payload MAX_RETRIES self2 None))"

text \<open>The upload requests in a trace.\<close>

fun is_upload :: "event \<Rightarrow> bool" where
  "is_upload (Upload url headers payload) = True"
| "is_upload e = False"

definition uploads :: "event list \<Rightarrow> event list" where
  "uploads es = filter is_upload es"

text \<open>
  Two services for the examples: one that already holds a record under every key, and an
  empty one that accepts the first upload. Both digest every payload to the same key.
\<close>

definition holding_service :: remote where
  "holding_service =
     \<lparr>md5_hexdigest = (\<lambda>d. ''d41d8cd98f00b204e9800998ecf8427e''),
      b64encode = (\<lambda>d. d), urlencode = (\<lambda>ps. ''title=Replay''),
      get_url_JSON_model = (\<lambda>es url. Inr (Some example_replay)),
      session_post = (\<lambda>es url hs pl. Inr (200, Inr ''{}'')),
      parse_raw = (\<lambda>body. Inr example_replay)\<rparr>"

definition empty_service :: remote where
  "empty_service = holding_service\<lparr>get_url_JSON_model := (\<lambda>es url. Inr None)\<rparr>"

definition new_client :: WoTinspector where
  "new_client = \<lparr>REPLAY_N = 1, events = []\<rparr>"

section \<open>Region: theorems\<close>

text \<open>
  C5. For every non-negative id, \<open>from_id\<close> returns the region of the threshold bucket that
  contains the id: china from 3100000000, asia in [2000000000, 3100000000), com in
  [1000000000, 2000000000), eu in [500000000, 1000000000), ru below 500000000. Every
  non-negative id gets exactly one region, so the buckets have no gap and no overlap.
\<close>

theorem from_id_buckets:
  assumes "0 \<le> i"
  shows "(from_id i = Inr (Some china) \<longleftrightarrow> 3100000000 \<le> i)
       \<and> (from_id i = Inr (Some asia) \<longleftrightarrow> 2000000000 \<le> i \<and> i < 3100000000)
       \<and> (from_id i = Inr (Some com) \<longleftrightarrow> 1000000000 \<le> i \<and> i < 2000000000)
       \<and> (from_id i = Inr (Some eu) \<longleftrightarrow> 500000000 \<le> i \<and> i < 1000000000)
       \<and> (from_id i = Inr (Some ru) \<longleftrightarrow> i < 500000000)
       \<and> (\<exists>!r. from_id i = Inr (Some r))
       \<and> from_id i \<noteq> Inr (Some API)"
  by (auto simp: from_id_def)

theorem from_id_buckets_witness:
  "(0::int) \<le> 2500000000 \<and> from_id 2500000000 = Inr (Some asia)
   \<and> from_id 0 = Inr (Some ru) \<and> from_id 499999999 = Inr (Some ru)
   \<and> from_id 500000000 = Inr (Some eu) \<and> from_id 999999999 = Inr (Some eu)
   \<and> from_id 1000000000 = Inr (Some com) \<and> from_id 1999999999 = Inr (Some com)
   \<and> from_id 2000000000 = Inr (Some asia) \<and> from_id 3099999999 = Inr (Some asia)
   \<and> from_id 3100000000 = Inr (Some china)"
  using from_id_buckets [of 2500000000] from_id_buckets [of 0]
    from_id_buckets [of 499999999] from_id_buckets [of 500000000]
    from_id_buckets [of 999999999] from_id_buckets [of 1000000000]
    from_id_buckets [of 1999999999] from_id_buckets [of 2000000000]
    from_id_buckets [of 3099999999] from_id_buckets [of 3100000000]
  by simp

text \<open>
  C6 (the code at a negative id). \<open>from_id\<close> has no lower bound: a negative id falls
  through every comparison to the final \<^verbatim>\<open>else\<close> and is classified as ru, and no integer
  reaches the \<^verbatim>\<open>except\<close> branch that would report an id "out of known id range".
\<close>

theorem from_id_negative_is_ru:
  "from_id (- 1) = Inr (Some ru) \<and> (\<forall>i e. from_id i \<noteq> Inl e)"
  by (simp add: from_id_def)

text \<open>
  C9. \<open>matches\<close> is reflexive on all six regions; API matches eu, com, asia and ru in
  either argument position; API and china do not match in either position; two distinct
  regions neither of which is API do not match.
\<close>

theorem matches_relation:
  "matches r r
   \<and> (r \<in> {eu, com, asia, ru} \<longrightarrow> matches API r \<and> matches r API)
   \<and> \<not> matches API china \<and> \<not> matches china API
   \<and> (a \<noteq> b \<and> a \<noteq> API \<and> b \<noteq> API \<longrightarrow> \<not> matches a b)"
  by (auto simp: matches_def API_regions_def)

theorem matches_relation_witness:
  "matches API API \<and> matches china china
   \<and> eu \<in> {eu, com, asia, ru} \<and> matches API eu \<and> matches eu API
   \<and> matches API com \<and> matches com API \<and> matches API asia \<and> matches asia API
   \<and> matches API ru \<and> matches ru API
   \<and> eu \<noteq> china \<and> eu \<noteq> API \<and> china \<noteq> API \<and> \<not> matches eu china"
  using matches_relation [of API eu china] matches_relation [of china eu china]
    matches_relation [of eu eu china] matches_relation [of com eu china]
    matches_relation [of asia eu china] matches_relation [of ru eu china]
  by simp

section \<open>Battle records: theorems\<close>

lemma get_enemies_None: "get_enemies r None = Inr (enemies (summary (data r)))"
  by (simp add: get_enemies_def)

lemma get_allies_None: "get_allies r None = Inr (allies (summary (data r)))"
  by (simp add: get_allies_def)

text \<open>
  C2. \<open>get_battle_result\<close> never raises, and its value is: incomplete when the recorded
  result is incomplete, whatever the player; otherwise, for a player of the enemies roster,
  loss if the recorded result is win, else draw if the winner team is draw, else win;
  otherwise, for no player or a player of the allies roster, win if the recorded result is
  win, else draw if the winner team is draw, else loss; and incomplete for a player in
  neither roster.
\<close>

theorem get_battle_result_cases:
  "(battle_result (summary (data r)) = Some EnumBattleResult.incomplete
      \<longrightarrow> get_battle_result r p = Inr EnumBattleResult.incomplete)
   \<and> (battle_result (summary (data r)) \<noteq> Some EnumBattleResult.incomplete
        \<and> p = Some q \<and> q \<in> set (enemies (summary (data r)))
      \<longrightarrow> get_battle_result r p = Inr
           (if battle_result (summary (data r)) = Some EnumBattleResult.win
            then EnumBattleResult.loss
            else if winner_team (summary (data r)) = Some EnumWinnerTeam.draw
            then EnumBattleResult.draw
            else EnumBattleResult.win))
   \<and> (battle_result (summary (data r)) \<noteq> Some EnumBattleResult.incomplete
        \<and> (p = None \<or> p = Some q \<and> q \<notin> set (enemies (summary (data r)))
               \<and> q \<in> set (allies (summary (data r))))
      \<longrightarrow> get_battle_result r p = Inr
           (if battle_result (summary (data r)) = Some EnumBattleResult.win
            then EnumBattleResult.win
            else if winner_team (summary (data r)) = Some EnumWinnerTeam.draw
            then EnumBattleResult.draw
            else EnumBattleResult.loss))
   \<and> (battle_result (summary (data r)) \<noteq> Some EnumBattleResult.incomplete
        \<and> p = Some q \<and> q \<notin> set (enemies (summary (data r)))
        \<and> q \<notin> set (allies (summary (data r)))
      \<longrightarrow> get_battle_result r p = Inr EnumBattleResult.incomplete)"
  by (auto simp: get_battle_result_def get_enemies_None get_allies_None)

lemma example_battle_summary:
  "battle_result (summary (data (example_battle br wt))) = br"
  "winner_team (summary (data (example_battle br wt))) = wt"
  "allies (summary (data (example_battle br wt))) = [1, 2]"
  "enemies (summary (data (example_battle br wt))) = [3, 4]"
  by (simp_all add: example_battle_def example_replay_def)

theorem get_battle_result_cases_witness:
  "get_battle_result (example_battle (Some EnumBattleResult.win) (Some EnumWinnerTeam.one)) None
     = Inr EnumBattleResult.win
   \<and> get_battle_result (example_battle (Some EnumBattleResult.win) (Some EnumWinnerTeam.one)) (Some 1)
     = Inr EnumBattleResult.win
   \<and> get_battle_result (example_battle (Some EnumBattleResult.win) (Some EnumWinnerTeam.one)) (Some 3)
     = Inr EnumBattleResult.loss
   \<and> get_battle_result (example_battle (Some EnumBattleResult.win) (Some EnumWinnerTeam.one)) (Some 9)
     = Inr EnumBattleResult.incomplete
   \<and> get_battle_result (example_battle (Some EnumBattleResult.not_win) (Some EnumWinnerTeam.one)) None
     = Inr EnumBattleResult.loss
   \<and> get_battle_result (example_battle (Some EnumBattleResult.not_win) (Some EnumWinnerTeam.one)) (Some 3)
     = Inr EnumBattleResult.win
   \<and> get_battle_result (example_battle (Some EnumBattleResult.loss) (Some EnumWinnerTeam.draw)) None
     = Inr EnumBattleResult.draw
   \<and> get_battle_result (example_battle (Some EnumBattleResult.loss) (Some EnumWinnerTeam.draw)) (Some 3)
     = Inr EnumBattleResult.draw
   \<and> get_battle_result (example_battle (Some EnumBattleResult.incomplete) (Some EnumWinnerTeam.draw)) None
     = Inr EnumBattleResult.incomplete
   \<and> get_battle_result (example_battle (Some EnumBattleResult.incomplete) (Some EnumWinnerTeam.one)) (Some 3)
     = Inr EnumBattleResult.incomplete
   \<and> get_battle_result (example_battle (Some EnumBattleResult.incomplete) (Some EnumWinnerTeam.one)) (Some 9)
     = Inr EnumBattleResult.incomplete"
  using
    get_battle_result_cases [of "example_battle (Some EnumBattleResult.win) (Some EnumWinnerTeam.one)" None 0]
    get_battle_result_cases [of "example_battle (Some EnumBattleResult.win) (Some EnumWinnerTeam.one)" "Some 1" 1]
    get_battle_result_cases [of "example_battle (Some EnumBattleResult.win) (Some EnumWinnerTeam.one)" "Some 3" 3]
    get_battle_result_cases [of "example_battle (Some EnumBattleResult.win) (Some EnumWinnerTeam.one)" "Some 9" 9]
    get_battle_result_cases [of "example_battle (Some EnumBattleResult.not_win) (Some EnumWinnerTeam.one)" None 0]
    get_battle_result_cases [of "example_battle (Some EnumBattleResult.not_win) (Some EnumWinnerTeam.one)" "Some 3" 3]
    get_battle_result_cases [of "example_battle (Some EnumBattleResult.loss) (Some EnumWinnerTeam.draw)" None 0]
    get_battle_result_cases [of "example_battle (Some EnumBattleResult.loss) (Some EnumWinnerTeam.draw)" "Some 3" 3]
    get_battle_result_cases [of "example_battle (Some EnumBattleResult.incomplete) (Some EnumWinnerTeam.draw)" None 0]
    get_battle_result_cases [of "example_battle (Some EnumBattleResult.incomplete) (Some EnumWinnerTeam.one)" "Some 3" 3]
    get_battle_result_cases [of "example_battle (Some EnumBattleResult.incomplete) (Some EnumWinnerTeam.one)" "Some 9" 9]
  by (simp add: example_battle_summary)

subsection \<open>Platoons\<close>

lemma append_to_apply:
  "append_to m k a j = (if j = k then Some ((case m k of None \<Rightarrow> [] | Some xs \<Rightarrow> xs) @ [a]) else m j)"
  by (simp add: append_to_def)

lemma platoon_rows_Nil: "platoon_rows [] P k = []"
  by (simp add: platoon_rows_def)

lemma platoon_rows_Cons:
  "platoon_rows (d # ds) P k =
     (if squad_index d = Some k \<and> P (dbid d) then dbid d # platoon_rows ds P k
      else platoon_rows ds P k)"
  by (simp add: platoon_rows_def)

text \<open>The loop, started from any two groupings, appends to each key its rows in order.\<close>

lemma platoons_loop_grouping:
  "platoons_loop al ds ap ep =
     ((\<lambda>k. if k > 0 \<and> platoon_rows ds (\<lambda>a. a \<in> set al) k \<noteq> []
            then Some ((case ap k of None \<Rightarrow> [] | Some xs \<Rightarrow> xs) @ platoon_rows ds (\<lambda>a. a \<in> set al) k)
            else ap k),
      (\<lambda>k. if k > 0 \<and> platoon_rows ds (\<lambda>a. a \<notin> set al) k \<noteq> []
            then Some ((case ep k of None \<Rightarrow> [] | Some xs \<Rightarrow> xs) @ platoon_rows ds (\<lambda>a. a \<notin> set al) k)
            else ep k))"
proof (induction ds arbitrary: ap ep)
  case Nil
  then show ?case by (simp add: platoon_rows_Nil)
next
  case (Cons d ds)
  show ?case
  proof (cases "squad_index d")
    case None
    then show ?thesis by (simp add: Cons.IH platoon_rows_Cons cong: if_cong)
  next
    case (Some sq)
    show ?thesis
    proof (cases "sq > 0")
      case False
      then show ?thesis using Some
        by (auto simp: Cons.IH platoon_rows_Cons fun_eq_iff)
    next
      case True
      then show ?thesis using Some
        by (auto simp: Cons.IH platoon_rows_Cons append_to_apply fun_eq_iff)
    qed
  qed
qed

lemma get_platoons_resolved:
  assumes "get_allies r p = Inr al"
  shows "get_platoons r p =
           Inr (grouping (details (summary (data r))) (\<lambda>a. a \<in> set al),
                grouping (details (summary (data r))) (\<lambda>a. a \<notin> set al))"
  using assms by (simp add: get_platoons_def platoons_loop_grouping grouping_def fun_eq_iff)

lemma grouping_member:
  "d \<in> set ds \<Longrightarrow> squad_index d = Some k \<Longrightarrow> 0 < k \<Longrightarrow> P (dbid d) \<Longrightarrow>
     \<exists>xs. grouping ds P k = Some xs \<and> dbid d \<in> set xs"
  by (auto simp: grouping_def platoon_rows_def filter_empty_conv)

lemma grouping_positive: "grouping ds P k = Some xs \<Longrightarrow> 0 < k"
  by (simp add: grouping_def split: if_splits)

text \<open>
  C3, as the claim states it, fails: in the example battle (allies 1 and 2, enemies 3 and
  4) the detail row of participant 9, who is in neither roster, has platoon index 1, and
  \<open>get_platoons\<close> from the neutral perspective returns, without an error, an enemy grouping
  whose platoon 1 is [9]. The row is grouped with the enemies, not left out.
\<close>

theorem get_platoons_unknown_row_counterexample:
  "9 \<notin> set (allies (summary (data example_replay)))
   \<and> 9 \<notin> set (enemies (summary (data example_replay)))
   \<and> get_allies example_replay None = Inr [1, 2]
   \<and> \<not> isl (get_platoons example_replay None)
   \<and> fst (projr (get_platoons example_replay None)) 1 = Some [1, 2]
   \<and> snd (projr (get_platoons example_replay None)) 1 = Some [9]"
  by (simp add: get_platoons_def get_allies_def example_replay_def append_to_def)

text \<open>
  C3, amended. When the ally roster resolves for the perspective \<open>p\<close> (to \<open>al\<close>),
  \<open>get_platoons\<close> returns two groupings keyed by platoon index, built from the rows with a
  strictly positive index only: the allied grouping holds the rows whose participant is in
  \<open>al\<close>, the enemy grouping holds all the other such rows. So a row with a positive index
  whose participant is not in \<open>al\<close>, a participant of neither roster included, is in the
  enemy grouping under its index; no error is raised for it.
\<close>

theorem get_platoons_grouping:
  assumes "get_allies r p = Inr al"
  shows "get_platoons r p =
           Inr (grouping (details (summary (data r))) (\<lambda>a. a \<in> set al),
                grouping (details (summary (data r))) (\<lambda>a. a \<notin> set al))
       \<and> (\<forall>k xs. fst (projr (get_platoons r p)) k = Some xs
                   \<or> snd (projr (get_platoons r p)) k = Some xs \<longrightarrow> 0 < k)
       \<and> (\<forall>d k. d \<in> set (details (summary (data r))) \<and> squad_index d = Some k \<and> 0 < k
                  \<and> dbid d \<notin> set al
              \<longrightarrow> (\<exists>xs. snd (projr (get_platoons r p)) k = Some xs \<and> dbid d \<in> set xs))"
  using get_platoons_resolved [OF assms]
  by (auto dest: grouping_positive intro: grouping_member)

theorem get_platoons_grouping_witness:
  "get_allies example_replay None = Inr [1, 2]
   \<and> get_platoons example_replay None =
       Inr (grouping (details (summary (data example_replay))) (\<lambda>a. a \<in> set [1, 2]),
            grouping (details (summary (data example_replay))) (\<lambda>a. a \<notin> set [1, 2]))
   \<and> grouping (details (summary (data example_replay))) (\<lambda>a. a \<in> set [1, 2]) 1 = Some [1, 2]
   \<and> grouping (details (summary (data example_replay))) (\<lambda>a. a \<in> set [1, 2]) 0 = None
   \<and> grouping (details (summary (data example_replay))) (\<lambda>a. a \<notin> set [1, 2]) 0 = None
   \<and> grouping (details (summary (data example_replay))) (\<lambda>a. a \<notin> set [1, 2]) 2 = Some [3]
   \<and> grouping (details (summary (data example_replay))) (\<lambda>a. a \<notin> set [1, 2]) 1 = Some [9]"
proof -
  have h: "get_allies example_replay None = Inr [1, 2]"
    by (simp add: get_allies_def example_replay_def)
  show ?thesis
    using h get_platoons_grouping [OF h]
    by (simp add: grouping_def platoon_rows_def example_replay_def)
qed

text \<open>
  C10. For a player in neither roster \<open>get_platoons\<close> returns no grouping: the
  \<open>ValueError\<close> of \<open>get_allies\<close> comes out of it, whatever the detail rows are.
\<close>

theorem get_platoons_unknown_perspective:
  assumes "p \<notin> set (allies (summary (data r)))" and "p \<notin> set (enemies (summary (data r)))"
  shows "get_allies r (Some p) = Inl ValueError \<and> get_platoons r (Some p) = Inl ValueError"
  using assms by (simp add: get_platoons_def get_allies_def)

theorem get_platoons_unknown_perspective_witness:
  "9 \<notin> set (allies (summary (data example_replay)))
   \<and> 9 \<notin> set (enemies (summary (data example_replay)))
   \<and> get_allies example_replay (Some 9) = Inl ValueError
   \<and> get_platoons example_replay (Some 9) = Inl ValueError"
proof -
  have a: "9 \<notin> set (allies (summary (data example_replay)))"
    and e: "9 \<notin> set (enemies (summary (data example_replay)))"
    by (simp_all add: example_replay_def)
  show ?thesis using a e get_platoons_unknown_perspective [OF a e] by simp
qed

section \<open>Tank statistics identity: theorems\<close>

subsection \<open>Hex digits\<close>


lemma hexval_hexchar_table: "\<forall>d \<in> set [0 ..< 16]. hexval (hexchar d) = Some d"
  by code_simp

lemma hexval_hexchar: "d < 16 \<Longrightarrow> hexval (hexchar d) = Some d"
  using hexval_hexchar_table by simp

lemma is_hexdigit_hexchar: "d < 16 \<Longrightarrow> is_hexdigit (hexchar d)"
  by (simp add: is_hexdigit_def hexval_hexchar)

lemma is_hexdigit_zero: "is_hexdigit CHR ''0''"
  by code_simp

lemma hexval_zero: "hexval CHR ''0'' = Some 0"
  by code_simp

lemma hex_digits_small: "n < 16 \<Longrightarrow> hex_digits n = [hexchar n]"
  by (simp add: hex_digits.simps)

lemma hex_digits_large: "\<not> n < 16 \<Longrightarrow> hex_digits n = hex_digits (n div 16) @ [hexchar (n mod 16)]"
  by (subst hex_digits.simps) simp

lemma length_hex_digits_pos: "0 < length (hex_digits n)"
  by (cases "n < 16") (simp_all add: hex_digits_small hex_digits_large)

lemma hex_digits_upper: "n < 16 ^ length (hex_digits n)"
proof (induction n rule: hex_digits.induct)
  case (1 n)
  show ?case
  proof (cases "n < 16")
    case True
    then show ?thesis by (simp add: hex_digits_small)
  next
    case False
    then have "n div 16 < 16 ^ length (hex_digits (n div 16))" using 1 by simp
    then have "n < 16 * 16 ^ length (hex_digits (n div 16))" by simp
    then show ?thesis using False by (simp add: hex_digits_large)
  qed
qed

lemma hex_digits_lower: "16 \<le> n \<Longrightarrow> 16 ^ (length (hex_digits n) - 1) \<le> n"
proof (induction n rule: hex_digits.induct)
  case (1 n)
  then have big: "\<not> n < 16" by simp
  show ?case
  proof (cases "n div 16 < 16")
    case True
    then show ?thesis using big by (simp add: hex_digits_large hex_digits_small)
  next
    case False
    then have "16 ^ (length (hex_digits (n div 16)) - 1) \<le> n div 16"
      using 1 big by simp
    then have "16 * 16 ^ (length (hex_digits (n div 16)) - 1) \<le> n" by simp
    moreover have "0 < length (hex_digits (n div 16))" by (rule length_hex_digits_pos)
    ultimately show ?thesis using big
      by (simp add: hex_digits_large flip: power_Suc)
  qed
qed

lemma length_hex_digits_le:
  assumes "n < 16 ^ k" and "0 < k"
  shows "length (hex_digits n) \<le> k"
proof (cases "n < 16")
  case True
  then show ?thesis using assms by (simp add: hex_digits_small)
next
  case False
  then have "16 \<le> n" by simp
  then have "(16::nat) ^ (length (hex_digits n) - 1) \<le> n" by (rule hex_digits_lower)
  then have "(16::nat) ^ (length (hex_digits n) - 1) < 16 ^ k"
    using assms(1) by (rule le_less_trans)
  then have "length (hex_digits n) - 1 < k" by simp
  then show ?thesis by simp
qed

lemma length_hex_digits_gt:
  assumes "16 ^ k \<le> n"
  shows "k < length (hex_digits n)"
proof -
  have "(16::nat) ^ k < 16 ^ length (hex_digits n)"
    using assms hex_digits_upper by (rule le_less_trans)
  then show ?thesis by simp
qed

lemma hex_digits_valid: "list_all is_hexdigit (hex_digits n)"
proof (induction n rule: hex_digits.induct)
  case (1 n)
  show ?case
  proof (cases "n < 16")
    case True
    then show ?thesis by (simp add: hex_digits_small is_hexdigit_hexchar)
  next
    case False
    then show ?thesis using 1 by (simp add: hex_digits_large is_hexdigit_hexchar)
  qed
qed

lemma hex_digits_lower_case: "map (\<lambda>c. hexchar (the (hexval c))) (hex_digits n) = hex_digits n"
proof (induction n rule: hex_digits.induct)
  case (1 n)
  show ?case
  proof (cases "n < 16")
    case True
    then show ?thesis by (simp add: hex_digits_small hexval_hexchar)
  next
    case False
    then show ?thesis using 1 by (simp add: hex_digits_large hexval_hexchar)
  qed
qed

lemma parse_hex_acc_append:
  "parse_hex_acc acc (xs @ ys) =
     (case parse_hex_acc acc xs of None \<Rightarrow> None | Some a \<Rightarrow> parse_hex_acc a ys)"
  by (induction xs arbitrary: acc) (auto split: option.splits)

lemma parse_hex_acc_hex_digits: "parse_hex_acc 0 (hex_digits n) = Some n"
proof (induction n rule: hex_digits.induct)
  case (1 n)
  show ?case
  proof (cases "n < 16")
    case True
    then show ?thesis by (simp add: hex_digits_small hexval_hexchar)
  next
    case False
    then show ?thesis using 1
      by (simp add: hex_digits_large parse_hex_acc_append hexval_hexchar)
  qed
qed

lemma parse_hex_acc_zeros: "parse_hex_acc 0 (replicate z CHR ''0'' @ s) = parse_hex_acc 0 s"
  by (induction z) (simp_all add: hexval_zero)


lemma hexval_signs: "hexval CHR ''+'' = None" "hexval CHR ''-'' = None"
  by code_simp+

lemma hexchar_zero: "hexchar (the (hexval CHR ''0'')) = CHR ''0''"
  by code_simp

lemma hex_nonneg: "0 \<le> n \<Longrightarrow> drop 2 (hex n) = hex_digits (nat n)"
  by (simp add: hex_def)

lemma zfill_hex_digits:
  "zfill w (hex_digits m) = replicate (w - length (hex_digits m)) CHR ''0'' @ hex_digits m"
proof (cases "hex_digits m")
  case Nil
  then show ?thesis using length_hex_digits_pos [of m] by simp
next
  case (Cons c cs)
  then have "is_hexdigit c" using hex_digits_valid [of m] by simp
  then have "c \<noteq> CHR ''+''" and "c \<noteq> CHR ''-''"
    using hexval_signs by (auto simp: is_hexdigit_def)
  then show ?thesis using Cons by (simp add: zfill_def)
qed

lemma zfill_hex: "0 \<le> n \<Longrightarrow> zfill w (drop 2 (hex n)) = pad_hex w n"
  by (simp add: hex_nonneg zfill_hex_digits pad_hex_def)

lemma length_pad_hex: "length (pad_hex w n) = max w (length (hex_digits (nat n)))"
  by (simp add: pad_hex_def)

lemma length_pad_hex_fits:
  assumes "0 \<le> n" and "n < 16 ^ w" and "0 < w"
  shows "length (pad_hex w n) = w"
proof -
  have "nat n < 16 ^ w" using assms(1,2) by (simp add: nat_less_iff)
  then have "length (hex_digits (nat n)) \<le> w" using assms(3) by (rule length_hex_digits_le)
  then show ?thesis by (simp add: length_pad_hex)
qed

lemma length_pad_hex_ge: "w \<le> length (pad_hex w n)"
  by (simp add: length_pad_hex)

lemma length_pad_hex_overflow:
  assumes "16 ^ w \<le> n"
  shows "w < length (pad_hex w n)"
proof -
  have "16 ^ w \<le> nat n" using assms by (simp add: le_nat_iff)
  then have "w < length (hex_digits (nat n))" by (rule length_hex_digits_gt)
  then show ?thesis by (simp add: length_pad_hex)
qed

lemma pad_hex_valid: "list_all is_hexdigit (pad_hex w n)"
  using hex_digits_valid [of "nat n"] by (auto simp: pad_hex_def list_all_iff is_hexdigit_zero)

lemma pad_hex_lower_case: "map (\<lambda>c. hexchar (the (hexval c))) (pad_hex w n) = pad_hex w n"
  by (simp add: pad_hex_def hex_digits_lower_case hexchar_zero)

lemma parse_hex_pad_hex: "0 \<le> n \<Longrightarrow> parse_hex (pad_hex w n) = Some n"
proof -
  assume "0 \<le> n"
  have "pad_hex w n \<noteq> []" using length_hex_digits_pos [of "nat n"] by (simp add: pad_hex_def)
  then show ?thesis using \<open>0 \<le> n\<close>
    by (simp add: parse_hex_def pad_hex_def parse_hex_acc_zeros parse_hex_acc_hex_digits)
qed

lemma ObjectId_ok:
  "length s = 24 \<Longrightarrow> list_all is_hexdigit s \<Longrightarrow>
     map (\<lambda>c. hexchar (the (hexval c))) s = s \<Longrightarrow> ObjectId s = Inr (Oid s)"
  by (simp add: ObjectId_def)

lemma ObjectId_bad_length: "length s \<noteq> 24 \<Longrightarrow> ObjectId s = Inl InvalidId"
  by (simp add: ObjectId_def)

lemma mk_id_padded:
  assumes "0 \<le> a" and "0 \<le> t" and "0 \<le> l"
  shows "mk_id a l t = ObjectId (pad_hex 10 a @ pad_hex 6 t @ pad_hex 8 l)"
  using assms by (simp add: mk_id_def zfill_hex)

lemma mk_id_in_range:
  assumes "0 \<le> a" and "0 \<le> t" and "0 \<le> l"
    and "a < 2 ^ 40" and "t < 2 ^ 24" and "l < 2 ^ 32"
  shows "mk_id a l t = Inr (Oid (pad_hex 10 a @ pad_hex 6 t @ pad_hex 8 l))"
    and "length (pad_hex 10 a) = 10" and "length (pad_hex 6 t) = 6"
    and "length (pad_hex 8 l) = 8"
    and "split_id (Oid (pad_hex 10 a @ pad_hex 6 t @ pad_hex 8 l)) = Some (a, t, l)"
proof -
  show la: "length (pad_hex 10 a) = 10"
    using assms(1,4) by (intro length_pad_hex_fits) simp_all
  show lt: "length (pad_hex 6 t) = 6"
    using assms(2,5) by (intro length_pad_hex_fits) simp_all
  show ll: "length (pad_hex 8 l) = 8"
    using assms(3,6) by (intro length_pad_hex_fits) simp_all
  show "mk_id a l t = Inr (Oid (pad_hex 10 a @ pad_hex 6 t @ pad_hex 8 l))"
    unfolding mk_id_padded [OF assms(1-3)]
    by (rule ObjectId_ok) (simp_all add: la lt ll pad_hex_valid pad_hex_lower_case)
  show "split_id (Oid (pad_hex 10 a @ pad_hex 6 t @ pad_hex 8 l)) = Some (a, t, l)"
    using assms(1-3) by (simp add: split_id_def la lt ll parse_hex_pad_hex)
qed

lemma mk_id_overflow:
  assumes "0 \<le> a" and "0 \<le> t" and "0 \<le> l"
    and "\<not> (a < 2 ^ 40 \<and> t < 2 ^ 24 \<and> l < 2 ^ 32)"
  shows "mk_id a l t = Inl InvalidId"
proof -
  have "10 \<le> length (pad_hex 10 a)" "6 \<le> length (pad_hex 6 t)" "8 \<le> length (pad_hex 8 l)"
    by (rule length_pad_hex_ge)+
  moreover have "10 < length (pad_hex 10 a) \<or> 6 < length (pad_hex 6 t) \<or> 8 < length (pad_hex 8 l)"
  proof -
    consider "16 ^ 10 \<le> a" | "16 ^ 6 \<le> t" | "16 ^ 8 \<le> l" using assms(4) by fastforce
    then show ?thesis
    proof cases
      case 1
      then have "10 < length (pad_hex 10 a)" by (rule length_pad_hex_overflow)
      then show ?thesis by blast
    next
      case 2
      then have "6 < length (pad_hex 6 t)" by (rule length_pad_hex_overflow)
      then show ?thesis by blast
    next
      case 3
      then have "8 < length (pad_hex 8 l)" by (rule length_pad_hex_overflow)
      then show ?thesis by blast
    qed
  qed
  ultimately have "length (pad_hex 10 a @ pad_hex 6 t @ pad_hex 8 l) \<noteq> 24" by auto
  then show ?thesis
    unfolding mk_id_padded [OF assms(1-3)] by (rule ObjectId_bad_length)
qed

subsection \<open>Examples of the encoding\<close>

lemma replicate_numeral: "replicate (numeral k) x = x # replicate (pred_numeral k) x"
  by (simp add: numeral_eq_Suc)

lemma hex_digits_examples:
  "hex_digits 1 = ''1''" "hex_digits 2 = ''2''" "hex_digits 3 = ''3''"
  "hex_digits 1099511627775 = ''ffffffffff''" "hex_digits 16777215 = ''ffffff''"
  "hex_digits 4294967295 = ''ffffffff''" "hex_digits (Suc 0) = ''1''"
  by (simp_all add: hex_digits.simps hexchar_def)

lemma pad_hex_examples:
  "pad_hex 10 1 = ''0000000001''" "pad_hex 6 2 = ''000002''" "pad_hex 8 3 = ''00000003''"
  "pad_hex 10 1099511627775 = ''ffffffffff''" "pad_hex 6 16777215 = ''ffffff''"
  "pad_hex 8 4294967295 = ''ffffffff''"
  by (simp_all add: pad_hex_def hex_digits_examples replicate_numeral)

lemma mk_id_1_2_3: "mk_id 1 3 2 = Inr (Oid ''000000000100000200000003'')"
  using mk_id_in_range(1) [of 1 2 3] by (simp add: pad_hex_examples)

subsection \<open>The identifier\<close>

text \<open>
  C1. For non-negative \<open>a\<close> (account_id), \<open>t\<close> (tank_id) and \<open>l\<close> (last_battle_time), passed
  to \<open>mk_id\<close> in the order of its parameters (account, time, tank): when \<open>a < 2^40\<close>,
  \<open>t < 2^24\<close> and \<open>l < 2^32\<close>, \<open>mk_id\<close> returns the object id whose 24 hex digits are \<open>a\<close>
  padded with zeros to 10 digits, then \<open>t\<close> to 6 digits, then \<open>l\<close> to 8 digits, and cutting
  these digits into segments of 10, 6 and 8 and reading each as a hex number gives back
  \<open>(a, t, l)\<close>; when one of the three is beyond its width, \<open>mk_id\<close> fails with \<open>InvalidId\<close>
  (the text is longer than 24 digits, nothing is cut off).
\<close>

theorem mk_id_encoding:
  assumes "0 \<le> a" and "0 \<le> t" and "0 \<le> l"
  shows "(a < 2 ^ 40 \<and> t < 2 ^ 24 \<and> l < 2 ^ 32 \<longrightarrow>
            mk_id a l t = Inr (Oid (pad_hex 10 a @ pad_hex 6 t @ pad_hex 8 l))
            \<and> length (pad_hex 10 a) = 10 \<and> length (pad_hex 6 t) = 6
            \<and> length (pad_hex 8 l) = 8
            \<and> split_id (Oid (pad_hex 10 a @ pad_hex 6 t @ pad_hex 8 l)) = Some (a, t, l))
       \<and> (\<not> (a < 2 ^ 40 \<and> t < 2 ^ 24 \<and> l < 2 ^ 32) \<longrightarrow> mk_id a l t = Inl InvalidId)"
  using mk_id_in_range [OF assms] mk_id_overflow [OF assms] by blast

theorem mk_id_encoding_witness:
  "(0::int) \<le> 1 \<and> (0::int) \<le> 2 \<and> (0::int) \<le> 3
   \<and> (1::int) < 2 ^ 40 \<and> (2::int) < 2 ^ 24 \<and> (3::int) < 2 ^ 32
   \<and> mk_id 1 3 2 = Inr (Oid (''0000000001'' @ ''000002'' @ ''00000003''))
   \<and> split_id (Oid (''0000000001'' @ ''000002'' @ ''00000003'')) = Some (1, 2, 3)
   \<and> mk_id 1099511627775 4294967295 16777215 = Inr (Oid ''ffffffffffffffffffffffff'')
   \<and> split_id (Oid ''ffffffffffffffffffffffff'') = Some (1099511627775, 16777215, 4294967295)
   \<and> mk_id 1099511627776 3 2 = Inl InvalidId
   \<and> mk_id 1 3 16777216 = Inl InvalidId
   \<and> mk_id 1 4294967296 2 = Inl InvalidId"
  using mk_id_encoding [of 1 2 3] mk_id_encoding [of 1099511627775 16777215 4294967295]
    mk_id_encoding [of 1099511627776 2 3] mk_id_encoding [of 1 16777216 3]
    mk_id_encoding [of 1 2 4294967296]
  by (simp add: pad_hex_examples)

text \<open>
  C4, as the claim states it, fails: \<open>set_id\<close> derives the identifier only when the
  payload has none. Constructed from a payload for account 1, tank 2, time 3 that supplies
  the identifier \<^verbatim>\<open>ffffffffffffffffffffffff\<close>, the record keeps that identifier, which is
  not \<open>mk_id\<close> of its fields (\<^verbatim>\<open>000000000100000200000003\<close>).
\<close>

theorem set_id_keeps_supplied_counterexample:
  "set_id example_stat = Inr (example_stat\<lparr>region := Some ru\<rparr>)
   \<and> id_tankstat (projr (set_id example_stat)) = Some (Oid ''ffffffffffffffffffffffff'')
   \<and> mk_id (account_id (projr (set_id example_stat)))
        (last_battle_time (projr (set_id example_stat)))
        (tank_id (projr (set_id example_stat))) = Inr (Oid ''000000000100000200000003'')
   \<and> Oid ''ffffffffffffffffffffffff'' \<noteq> Oid ''000000000100000200000003''"
  by (simp add: set_id_def example_stat_def from_id_def mk_id_1_2_3)

text \<open>
  C4, amended. For every successfully constructed record (\<open>set_id v = Inr v'\<close>): when the
  payload supplies no identifier, the record's identifier is \<open>mk_id\<close> of the record's own
  account_id, last_battle_time and tank_id, so two such constructions with the same triple
  carry the same identifier; when the payload supplies an identifier, the record keeps it.
\<close>

theorem set_id_identifier:
  assumes "set_id v = Inr v'"
  shows "(id_tankstat v = None \<longrightarrow>
            (\<exists>oid. id_tankstat v' = Some oid
               \<and> mk_id (account_id v') (last_battle_time v') (tank_id v') = Inr oid))
       \<and> (\<forall>x. id_tankstat v = Some x \<longrightarrow> id_tankstat v' = Some x)
       \<and> (\<forall>w w'. set_id w = Inr w' \<and> id_tankstat v = None \<and> id_tankstat w = None
              \<and> account_id w = account_id v \<and> tank_id w = tank_id v
              \<and> last_battle_time w = last_battle_time v
            \<longrightarrow> id_tankstat w' = id_tankstat v')"
  using assms
  by (auto simp: set_id_def from_id_def split: if_splits sum.splits)

theorem set_id_identifier_witness:
  "set_id (example_stat\<lparr>id_tankstat := None\<rparr>)
     = Inr (example_stat\<lparr>id_tankstat := Some (Oid ''000000000100000200000003''),
                          region := Some ru\<rparr>)
   \<and> mk_id 1 3 2 = Inr (Oid ''000000000100000200000003'')
   \<and> set_id (example_stat\<lparr>id_tankstat := None, mark_of_mastery := 4\<rparr>)
     = Inr (example_stat\<lparr>id_tankstat := Some (Oid ''000000000100000200000003''),
                          region := Some ru, mark_of_mastery := 4\<rparr>)
   \<and> set_id example_stat = Inr (example_stat\<lparr>region := Some ru\<rparr>)
   \<and> id_tankstat (example_stat\<lparr>region := Some ru\<rparr>) = Some (Oid ''ffffffffffffffffffffffff'')"
proof -
  have h1: "set_id (example_stat\<lparr>id_tankstat := None\<rparr>)
      = Inr (example_stat\<lparr>id_tankstat := Some (Oid ''000000000100000200000003''),
                           region := Some ru\<rparr>)"
    by (simp add: set_id_def example_stat_def from_id_def mk_id_1_2_3)
  have h2: "set_id (example_stat\<lparr>id_tankstat := None, mark_of_mastery := 4\<rparr>)
      = Inr (example_stat\<lparr>id_tankstat := Some (Oid ''000000000100000200000003''),
                           region := Some ru, mark_of_mastery := 4\<rparr>)"
    by (simp add: set_id_def example_stat_def from_id_def mk_id_1_2_3)
  have h3: "set_id example_stat = Inr (example_stat\<lparr>region := Some ru\<rparr>)"
    by (simp add: set_id_def example_stat_def from_id_def)
  show ?thesis
    using h1 h2 h3 set_id_identifier [OF h1] set_id_identifier [OF h3]
    by (simp add: example_stat_def)
qed

section \<open>Replay identity: theorems\<close>

lemma split_acc_nonempty: "split_acc sep cur s \<noteq> []"
  by (induction s arbitrary: cur) auto

text \<open>The last piece of a split is what follows the last separator.\<close>

lemma last_split_acc:
  "last (split_acc sep cur s) =
     (if sep \<in> set s then rev (takeWhile (\<lambda>c. c \<noteq> sep) (rev s)) else cur @ s)"
proof (induction s arbitrary: cur)
  case Nil
  then show ?case by simp
next
  case (Cons c cs)
  show ?case
  proof (cases "c = sep")
    case True
    then show ?thesis
      using Cons.IH [of "[]"] split_acc_nonempty [of sep "[]" cs]
      by (auto simp: takeWhile_append)
  next
    case False
    then show ?thesis
      using Cons.IH [of "cur @ [c]"] by (auto simp: takeWhile_append)
  qed
qed

lemma last_slice_last: "xs \<noteq> [] \<Longrightarrow> last_slice xs = [last xs]"
  by (induction xs rule: rev_induct) (simp_all add: last_slice_def)

lemma index0_last_slice_split:
  "index0 (last_slice (split_str u CHR ''/'')) = Inr (trailing_segment u)"
proof -
  have "last_slice (split_str u CHR ''/'') = [last (split_str u CHR ''/'')]"
    unfolding split_str_def by (rule last_slice_last) (rule split_acc_nonempty)
  moreover have "last (split_str u CHR ''/'') = trailing_segment u"
  proof (cases "CHR ''/'' \<in> set u")
    case True
    then show ?thesis by (simp add: split_str_def trailing_segment_def last_split_acc)
  next
    case False
    then have tw: "takeWhile (\<lambda>c. c \<noteq> CHR ''/'') (rev u) = rev u"
      by (intro takeWhile_eq_all_conv [THEN iffD2]) auto
    show ?thesis
      unfolding split_str_def trailing_segment_def last_split_acc tw using False by simp
  qed
  ultimately show ?thesis by (simp add: index0_def)
qed

lemma trailing_segment_examples:
  "trailing_segment ''https://replays.wotinspector.com/en/view/abc123'' = ''abc123''"
  "trailing_segment ''https://replays.wotinspector.com/en/download/abc123'' = ''abc123''"
  by (simp_all add: trailing_segment_def)

text \<open>
  C7. \<open>store_id\<close> always succeeds on validated values. A supplied id is used; without
  one the id is the trailing segment of \<open>view_url\<close> if that is present, else the trailing
  segment of \<open>download_url\<close> if that is present. In these three cases the id is set and both
  URLs are rebuilt as the view and download templates followed by the id. With none of the
  three present the values are returned unchanged: the id stays unset.
\<close>

theorem store_id_resolution:
  "(id_data v = Some i \<longrightarrow>
      store_id v = Inr (v\<lparr>id_data := Some i, view_url := Some (ViewUrlBase @ i),
                           download_url := Some (DLurlBase @ i)\<rparr>))
   \<and> (id_data v = None \<and> view_url v = Some u \<longrightarrow>
      store_id v = Inr (v\<lparr>id_data := Some (trailing_segment u),
                           view_url := Some (ViewUrlBase @ trailing_segment u),
                           download_url := Some (DLurlBase @ trailing_segment u)\<rparr>))
   \<and> (id_data v = None \<and> view_url v = None \<and> download_url v = Some u \<longrightarrow>
      store_id v = Inr (v\<lparr>id_data := Some (trailing_segment u),
                           view_url := Some (ViewUrlBase @ trailing_segment u),
                           download_url := Some (DLurlBase @ trailing_segment u)\<rparr>))
   \<and> (id_data v = None \<and> view_url v = None \<and> download_url v = None \<longrightarrow>
      store_id v = Inr v \<and> id_data (projr (store_id v)) = None)"
  by (simp add: store_id_def index0_last_slice_split)

theorem store_id_resolution_witness:
  "store_id ((data example_replay)\<lparr>id_data := Some ''abc123'',
       view_url := Some ''https://replays.wotinspector.com/en/view/other''\<rparr>)
     = Inr ((data example_replay)\<lparr>id_data := Some ''abc123'',
         view_url := Some ''https://replays.wotinspector.com/en/view/abc123'',
         download_url := Some ''https://replays.wotinspector.com/en/download/abc123''\<rparr>)
   \<and> store_id ((data example_replay)\<lparr>
       view_url := Some ''https://replays.wotinspector.com/en/view/abc123''\<rparr>)
     = Inr ((data example_replay)\<lparr>id_data := Some ''abc123'',
         view_url := Some ''https://replays.wotinspector.com/en/view/abc123'',
         download_url := Some ''https://replays.wotinspector.com/en/download/abc123''\<rparr>)
   \<and> store_id ((data example_replay)\<lparr>
       download_url := Some ''https://replays.wotinspector.com/en/download/abc123''\<rparr>)
     = Inr ((data example_replay)\<lparr>id_data := Some ''abc123'',
         view_url := Some ''https://replays.wotinspector.com/en/view/abc123'',
         download_url := Some ''https://replays.wotinspector.com/en/download/abc123''\<rparr>)
   \<and> store_id (data example_replay) = Inr (data example_replay)
   \<and> id_data (data example_replay) = None"
  using
    store_id_resolution [of "(data example_replay)\<lparr>id_data := Some ''abc123'',
       view_url := Some ''https://replays.wotinspector.com/en/view/other''\<rparr>" "''abc123''" "[]"]
    store_id_resolution [of "(data example_replay)\<lparr>
       view_url := Some ''https://replays.wotinspector.com/en/view/abc123''\<rparr>" "[]"
       "''https://replays.wotinspector.com/en/view/abc123''"]
    store_id_resolution [of "(data example_replay)\<lparr>
       download_url := Some ''https://replays.wotinspector.com/en/download/abc123''\<rparr>" "[]"
       "''https://replays.wotinspector.com/en/download/abc123''"]
    store_id_resolution [of "data example_replay" "[]" "[]"]
  by (simp add: example_replay_def trailing_segment_examples ViewUrlBase_def DLurlBase_def)

section \<open>Replay synchronisation client: theorems\<close>

lemma get_replay_fst_REPLAY_N:
  "fst (get_replay env (self\<lparr>REPLAY_N := n\<rparr>) k) = fst (get_replay env self k)"
  by (simp add: get_replay_def Let_def split: sum.splits option.splits)

lemma get_replay_events:
  "events (snd (get_replay env self k)) = events self @ [Fetch (get_url_replay_JSON k)]"
  by (simp add: get_replay_def Let_def split: sum.splits option.splits)

text \<open>
  C8. When fetching the replay under the digest of the payload returns a record \<open>r\<close>,
  \<open>post_replay\<close> returns \<open>r\<close>, and all it adds to the trace is that one fetch: the upload
  requests of the trace are those there were before. Conversely, if the trace after
  \<open>post_replay\<close> has an upload request more, the fetch returned no record.
\<close>

theorem post_replay_existing_record:
  "(fst (get_replay env self (md5_hexdigest env d)) = Some r \<longrightarrow>
      fst (post_replay env self d filename acc title priv N) = Some r
      \<and> uploads (events (snd (post_replay env self d filename acc title priv N)))
          = uploads (events self)
      \<and> events (snd (post_replay env self d filename acc title priv N))
          = events self @ [Fetch (get_url_replay_JSON (md5_hexdigest env d))])
   \<and> (uploads (events (snd (post_replay env self d filename acc title priv N)))
          \<noteq> uploads (events self) \<longrightarrow>
      fst (get_replay env self (md5_hexdigest env d)) = None)"
proof -
  let ?self1 = "self\<lparr>REPLAY_N := REPLAY_N self + 1\<rparr>"
  let ?g = "get_replay env ?self1 (md5_hexdigest env d)"
  have fst_g: "fst ?g = fst (get_replay env self (md5_hexdigest env d))"
    by (rule get_replay_fst_REPLAY_N)
  have ev_g: "events (snd ?g) = events self @ [Fetch (get_url_replay_JSON (md5_hexdigest env d))]"
    by (simp add: get_replay_events)
  have found: "post_replay env self d filename acc title priv N = (Some r', snd ?g)"
    if "fst ?g = Some r'" for r'
  proof -
    obtain x1 x2 where g: "?g = (x1, x2)" by (cases ?g)
    then have "x1 = Some r'" using that by simp
    then show ?thesis using g by (simp add: post_replay_def Let_def)
  qed
  show ?thesis
  proof (cases "fst (get_replay env self (md5_hexdigest env d))")
    case None
    then show ?thesis by simp
  next
    case (Some r')
    then have "post_replay env self d filename acc title priv N = (Some r', snd ?g)"
      using found fst_g by simp
    then show ?thesis using Some ev_g by (simp add: uploads_def)
  qed
qed

lemma holding_service_fetch:
  "get_replay holding_service new_client (md5_hexdigest holding_service ''abc'')
     = (Some example_replay,
        new_client\<lparr>events := [Fetch (get_url_replay_JSON ''d41d8cd98f00b204e9800998ecf8427e'')]\<rparr>)"
  by (simp add: get_replay_def holding_service_def new_client_def)

lemma empty_service_post:
  "post_replay empty_service new_client ''abc'' ''Replay'' 0 ''Replay'' False None
     = (Some example_replay,
        \<lparr>REPLAY_N = 2,
         events = [Fetch (get_url_replay_JSON ''d41d8cd98f00b204e9800998ecf8427e''),
                   Upload (URL_REPLAY_UL @ ''title=Replay'')
                     [(''Content-type'', ''application/x-www-form-urlencoded'')]
                     [(''file'', ''Replay'', ''abc'')]]\<rparr>)"
  by (simp add: post_replay_def get_replay_def empty_service_def holding_service_def
      new_client_def from_str_def MAX_RETRIES_def numeral_3_eq_3)

lemma empty_service_fetch:
  "fst (get_replay empty_service new_client (md5_hexdigest empty_service ''abc'')) = None"
  by (simp add: get_replay_def empty_service_def holding_service_def new_client_def)

theorem post_replay_existing_record_witness:
  "fst (get_replay holding_service new_client (md5_hexdigest holding_service ''abc''))
     = Some example_replay
   \<and> fst (post_replay holding_service new_client ''abc'' ''Replay'' 0 ''Replay'' False None)
     = Some example_replay
   \<and> uploads (events (snd (post_replay holding_service new_client ''abc'' ''Replay'' 0
        ''Replay'' False None))) = uploads (events new_client)
   \<and> uploads (events new_client) = []
   \<and> uploads (events (snd (post_replay empty_service new_client ''abc'' ''Replay'' 0
        ''Replay'' False None)))
     = [Upload (URL_REPLAY_UL @ ''title=Replay'')
          [(''Content-type'', ''application/x-www-form-urlencoded'')]
          [(''file'', ''Replay'', ''abc'')]]
   \<and> fst (get_replay empty_service new_client (md5_hexdigest empty_service ''abc'')) = None"
proof -
  have f: "fst (get_replay holding_service new_client (md5_hexdigest holding_service ''abc''))
      = Some example_replay"
    by (simp add: holding_service_fetch)
  have u0: "uploads (events new_client) = []"
    by (simp add: new_client_def uploads_def)
  have u1: "uploads (events (snd (post_replay empty_service new_client ''abc'' ''Replay'' 0
        ''Replay'' False None)))
     = [Upload (URL_REPLAY_UL @ ''title=Replay'')
          [(''Content-type'', ''application/x-www-form-urlencoded'')]
          [(''file'', ''Replay'', ''abc'')]]"
    unfolding empty_service_post by (simp add: uploads_def)
  have n: "fst (get_replay empty_service new_client (md5_hexdigest empty_service ''abc'')) = None"
    by (rule empty_service_fetch)
  from post_replay_existing_record [of holding_service new_client "''abc''" example_replay
        "''Replay''" 0 "''Replay''" False None] f
  have "fst (post_replay holding_service new_client ''abc'' ''Replay'' 0 ''Replay'' False None)
      = Some example_replay
    \<and> uploads (events (snd (post_replay holding_service new_client ''abc'' ''Replay'' 0
        ''Replay'' False None))) = uploads (events new_client)"
    by blast
  with f u0 u1 n show ?thesis by blast
qed

end
